theory Spec2Isabelle
  imports Complex_Main
begin

section \<open>Conventions\<close>

text \<open>
  The worker scripts under \<^verbatim>\<open>src/worker-script/python\<close> are embedded function by
  function. Audio samples are modelled as exact reals: the rounding of numpy's float32
  and float64 arithmetic is not part of the model. Every Python exception that a modelled
  function can raise is a value \<open>Inl e\<close> of a sum type.
\<close>

datatype py_error = ZeroDivisionError | ValueError

text \<open>Python's \<^verbatim>\<open>int(x)\<close> on a float truncates towards zero.\<close>

definition py_int :: "real \<Rightarrow> int" where
  "py_int x = (if 0 \<le> x then \<lfloor>x\<rfloor> else \<lceil>x\<rceil>)"

text \<open>
  The slice \<^verbatim>\<open>xs[i:]\<close>: a negative start counts from the end and is clamped
  at the front of the list, a start past the end gives the empty list.
\<close>

definition py_slice_from :: "int \<Rightarrow> 'a list \<Rightarrow> 'a list" where
  "py_slice_from i xs =
     (let n = int (length xs);
          start = (if i < 0 then max (n + i) 0 else min i n)
      in drop (nat start) xs)"

section \<open>Channel/rate normaliser: \<^verbatim>\<open>resample_linear\<close>\<close>

text \<open>\<^verbatim>\<open>np.zeros((n,))\<close> raises \<^verbatim>\<open>ValueError\<close> on a negative dimension.\<close>

definition np_zeros :: "int \<Rightarrow> py_error + real list" where
  "np_zeros n = (if n < 0 then Inl ValueError else Inr (replicate (nat n) 0))"

text \<open>\<^verbatim>\<open>np.linspace(0, 1, num=n, endpoint=False)\<close>: the points \<open>k / n\<close> for \<open>k < n\<close>.\<close>

definition np_linspace :: "nat \<Rightarrow> real list" where
  "np_linspace n = map (\<lambda>k. real k / real n) [0..<n]"

text \<open>
  \<^verbatim>\<open>np.interp(x, xp, fp)\<close> at one point, over the zipped sample points
  (increasing abscissae): the first ordinate left of the first point, the last ordinate
  right of the last point, the chord in between.
\<close>

fun interp_at :: "(real \<times> real) list \<Rightarrow> real \<Rightarrow> real" where
  "interp_at [] x = 0"
| "interp_at [(x0, y0)] x = y0"
| "interp_at ((x0, y0) # (x1, y1) # ps) x =
     (if x \<le> x0 then y0
      else if x < x1 then y0 + (x - x0) * ((y1 - y0) / (x1 - x0))
      else interp_at ((x1, y1) # ps) x)"

definition np_interp :: "real list \<Rightarrow> real list \<Rightarrow> real list \<Rightarrow> py_error + real list" where
  "np_interp xs xp fp =
     (if xp = [] then Inl ValueError
      else if length xp = length fp then Inr (map (interp_at (zip xp fp)) xs)
      else Inl ValueError)"

text \<open>
  \<^verbatim>\<open>resample_linear(data, src_sr, dst_sr)\<close>, the same text in
  \<^verbatim>\<open>loopback_transcribe.py\<close> and \<^verbatim>\<open>deepgram_transcribe.py\<close>. The rates are
  Python ints; \<^verbatim>\<open>dst_sr / src_sr\<close> is true division and raises on a zero divisor.
\<close>

definition resample_linear :: "real list \<Rightarrow> int \<Rightarrow> int \<Rightarrow> py_error + real list" where
  "resample_linear data src_sr dst_sr =
     (if src_sr = dst_sr then Inr data
      else if src_sr = 0 then Inl ZeroDivisionError
      else
        let ratio = real_of_int dst_sr / real_of_int src_sr;
            dst_len = py_int (real (length data) * ratio)
        in if dst_len \<le> 1 \<or> length data \<le> 1 then np_zeros dst_len
           else np_interp (np_linspace (nat dst_len)) (np_linspace (length data)) data)"

section \<open>Rolling segmentation buffer: the capture loop of \<^verbatim>\<open>loopback_transcribe.main\<close>\<close>

definition TARGET_SR :: int where
  "TARGET_SR = 16000"

definition buffer_duration :: real where
  "buffer_duration = 5.0"

definition max_buffer_samples :: int where
  "max_buffer_samples = py_int (real_of_int TARGET_SR * buffer_duration)"

definition process_interval :: real where
  "process_interval = 1.0"

definition process_samples :: int where
  "process_samples = py_int (real_of_int TARGET_SR * process_interval)"

definition silence_threshold :: real where
  "silence_threshold = 0.001"

text \<open>\<^verbatim>\<open>np.mean(a ** 2)\<close>.\<close>

definition mean_square :: "real list \<Rightarrow> real" where
  "mean_square a = (\<Sum>x\<leftarrow>a. x ^ 2) / real (length a)"

text \<open>
  Lines 529 to 534: \<^verbatim>\<open>audio_buffer.extend(mono16k)\<close>, then the trim to the last
  \<^verbatim>\<open>max_buffer_samples\<close> entries.
\<close>

definition append_and_trim :: "real list \<Rightarrow> real list \<Rightarrow> real list" where
  "append_and_trim audio_buffer mono16k =
     (let audio_buffer = audio_buffer @ mono16k
      in if int (length audio_buffer) > max_buffer_samples
         then py_slice_from (- max_buffer_samples) audio_buffer
         else audio_buffer)"

text \<open>Lines 548 to 553: the window handed to the enhancer on the speech branch.\<close>

definition window_size :: "real list \<Rightarrow> int" where
  "window_size audio_buffer =
     min (py_int (real_of_int TARGET_SR * 3.0)) (int (length audio_buffer))"

definition overlap_size :: int where
  "overlap_size = py_int (real_of_int TARGET_SR * 0.5)"

definition process_audio :: "real list \<Rightarrow> real list" where
  "process_audio audio_buffer = py_slice_from (- window_size audio_buffer) audio_buffer"

text \<open>
  Lines 551 and 599 to 602: what the speech branch leaves in the buffer. Enhancement,
  transcription and the emitted events in between do not touch \<^verbatim>\<open>audio_buffer\<close>.
\<close>

definition speech_trim :: "real list \<Rightarrow> real list" where
  "speech_trim audio_buffer =
     (if int (length audio_buffer) \<ge> window_size audio_buffer then
        let remove_samples = window_size audio_buffer - overlap_size
        in if int (length audio_buffer) > remove_samples
           then py_slice_from remove_samples audio_buffer
           else audio_buffer
      else audio_buffer)"

text \<open>Lines 603 to 607: the silence branch removes half a second.\<close>

definition silence_trim :: "real list \<Rightarrow> real list" where
  "silence_trim audio_buffer =
     (let remove_samples = py_int (real_of_int TARGET_SR * 0.5)
      in if int (length audio_buffer) > remove_samples
         then py_slice_from remove_samples audio_buffer
         else audio_buffer)"

text \<open>
  One pass of the \<^verbatim>\<open>while True\<close> body as far as \<^verbatim>\<open>audio_buffer\<close> is concerned
  (lines 529 to 607), for a frame that has already been downmixed and resampled.
\<close>

definition buffer_iteration :: "real list \<Rightarrow> real list \<Rightarrow> real list" where
  "buffer_iteration audio_buffer mono16k =
     (let audio_buffer = append_and_trim audio_buffer mono16k
      in if int (length audio_buffer) \<ge> process_samples then
           let recent_audio = py_slice_from (- process_samples) audio_buffer;
               energy = mean_square recent_audio
           in if energy > silence_threshold then speech_trim audio_buffer
              else silence_trim audio_buffer
         else audio_buffer)"

text \<open>The loop over the frames read from the device, from the initial empty buffer.\<close>

definition capture_loop :: "real list list \<Rightarrow> real list" where
  "capture_loop frames = foldl buffer_iteration [] frames"

section \<open>Speech activity detector: \<^verbatim>\<open>detect_speech_activity\<close>\<close>

text \<open>\<^verbatim>\<open>np.diff(a)\<close>: the differences of neighbouring entries.\<close>

definition np_diff :: "real list \<Rightarrow> real list" where
  "np_diff a = map (\<lambda>(x, y). y - x) (zip a (tl a))"

text \<open>
  Line 315: \<^verbatim>\<open>np.sum(np.abs(np.diff(np.sign(audio)))) / (2 * len(audio))\<close>;
  \<^verbatim>\<open>np.sign\<close> is \<open>sgn\<close>.
\<close>

definition zero_crossing_rate :: "real list \<Rightarrow> real" where
  "zero_crossing_rate audio =
     (\<Sum>d\<leftarrow>np_diff (map sgn audio). \<bar>d\<bar>) / (2 * real (length audio))"

text \<open>\<^verbatim>\<open>np.fft.fft(a)\<close>: the discrete Fourier transform, bin \<open>k\<close> of \<open>length a\<close>.\<close>

definition np_fft :: "real list \<Rightarrow> complex list" where
  "np_fft a =
     map (\<lambda>k. \<Sum>n\<leftarrow>[0..<length a].
                  complex_of_real (a ! n) * cis (- (2 * pi * real k * real n / real (length a))))
         [0..<length a]"

text \<open>
  \<^verbatim>\<open>np.fft.fftfreq(n, d)\<close>: the bin indices \<open>0, 1, \<dots>, (n - 1) div 2\<close> followed
  by the negative ones, each multiplied by \<open>1 / (n * d)\<close>.
\<close>

definition np_fftfreq :: "nat \<Rightarrow> real \<Rightarrow> real list" where
  "np_fftfreq n d =
     map (\<lambda>i. (if i \<le> (n - 1) div 2 then real i else real i - real n) * (1 / (real n * d)))
         [0..<n]"

text \<open>
  Division of numpy floats does not raise: a zero divisor gives \<^verbatim>\<open>nan\<close> or
  \<^verbatim>\<open>inf\<close>, modelled as \<open>None\<close>.
\<close>

definition np_true_divide :: "real \<Rightarrow> real \<Rightarrow> real option" where
  "np_true_divide a b = (if b = 0 then None else Some (a / b))"

text \<open>Line 318: \<^verbatim>\<open>fft = np.abs(np.fft.fft(audio))\<close>.\<close>

definition fft_magnitude :: "real list \<Rightarrow> real list" where
  "fft_magnitude audio = map cmod (np_fft audio)"

text \<open>Line 320: \<^verbatim>\<open>fft_sum = np.sum(fft[:len(fft)//2])\<close>.\<close>

definition fft_sum :: "real list \<Rightarrow> real" where
  "fft_sum audio =
     (let fft = fft_magnitude audio in sum_list (take (length fft div 2) fft))"

text \<open>The numerator of line 322: \<^verbatim>\<open>np.sum(freqs[:len(freqs)//2] * fft[:len(fft)//2])\<close>.\<close>

definition weighted_sum :: "real list \<Rightarrow> real list \<Rightarrow> real" where
  "weighted_sum audio freqs =
     (let fft = fft_magnitude audio
      in \<Sum>(f, m)\<leftarrow>zip (take (length freqs div 2) freqs) (take (length fft div 2) fft). f * m)"

text \<open>Lines 321 to 324: the guarded centroid.\<close>

definition spectral_centroid :: "real list \<Rightarrow> real list \<Rightarrow> real option" where
  "spectral_centroid audio freqs =
     (if fft_sum audio > 0
      then np_true_divide (weighted_sum audio freqs) (fft_sum audio)
      else Some 0)"

text \<open>
  The chained comparison \<^verbatim>\<open>lo < v < hi\<close> on a numpy float: false on \<^verbatim>\<open>nan\<close>.
\<close>

definition in_band :: "real \<Rightarrow> real \<Rightarrow> real option \<Rightarrow> bool" where
  "in_band lo hi v = (case v of None \<Rightarrow> False | Some c \<Rightarrow> lo < c \<and> c < hi)"

text \<open>
  \<^verbatim>\<open>detect_speech_activity(audio, sample_rate)\<close>, lines 304 to 335. The only
  statement that can raise is \<^verbatim>\<open>1/sample_rate\<close> on line 319.
\<close>

definition detect_speech_activity :: "real list \<Rightarrow> int \<Rightarrow> py_error + bool" where
  "detect_speech_activity audio sample_rate =
     (if length audio = 0 then Inr False
      else
        let energy = mean_square audio;
            zero_crossings = zero_crossing_rate audio
        in if sample_rate = 0 then Inl ZeroDivisionError
           else
             let freqs = np_fftfreq (length audio) (1 / real_of_int sample_rate);
                 centroid = spectral_centroid audio freqs;
                 energy_threshold = 0.001;
                 has_energy = (energy > energy_threshold);
                 has_speech_zcr = (0.01 < zero_crossings \<and> zero_crossings < 0.3);
                 has_speech_spectrum = in_band 200 4000 centroid
             in Inr (has_energy \<and> (has_speech_zcr \<or> has_speech_spectrum)))"

subsection \<open>The classification as the specification words it\<close>

text \<open>
  Written from the words of the specification, not from the code: the mean-square energy
  of the window, its zero-crossing rate (half the summed jumps of the sign between
  neighbouring samples, per sample), and the spectral centroid, the mean of the bin
  frequencies \<open>k * sample_rate / n\<close> of the lower half of the spectrum weighted by the
  magnitudes of the discrete Fourier transform, taken as 0 when the total magnitude is 0.
  A window is confirmed speech when it is not empty, the energy exceeds 0.001, and the
  zero-crossing rate lies strictly between 0.01 and 0.3 or the centroid strictly between
  200 and 4000.
\<close>

definition spec_dft :: "real list \<Rightarrow> nat \<Rightarrow> complex" where
  "spec_dft x k =
     (\<Sum>m\<leftarrow>[0..<length x].
        complex_of_real (x ! m) * cis (- (2 * pi * real k * real m / real (length x))))"

definition spec_energy :: "real list \<Rightarrow> real" where
  "spec_energy x = (\<Sum>m\<leftarrow>[0..<length x]. (x ! m)\<^sup>2) / real (length x)"

definition spec_zcr :: "real list \<Rightarrow> real" where
  "spec_zcr x =
     (\<Sum>m\<leftarrow>[0..<length x - 1]. \<bar>sgn (x ! Suc m) - sgn (x ! m)\<bar>) / (2 * real (length x))"

definition spec_magnitude_total :: "real list \<Rightarrow> real" where
  "spec_magnitude_total x = (\<Sum>k\<leftarrow>[0..<length x div 2]. cmod (spec_dft x k))"

definition spec_centroid :: "real list \<Rightarrow> int \<Rightarrow> real" where
  "spec_centroid x sample_rate =
     (if spec_magnitude_total x = 0 then 0
      else (\<Sum>k\<leftarrow>[0..<length x div 2].
              (real k * real_of_int sample_rate / real (length x)) * cmod (spec_dft x k))
           / spec_magnitude_total x)"

definition spec_confirmed_speech :: "real list \<Rightarrow> int \<Rightarrow> bool" where
  "spec_confirmed_speech x sample_rate =
     (x \<noteq> [] \<and> spec_energy x > 0.001 \<and>
      ((0.01 < spec_zcr x \<and> spec_zcr x < 0.3) \<or>
       (200 < spec_centroid x sample_rate \<and> spec_centroid x sample_rate < 4000)))"

section \<open>Audio enhancer: the final peak normalisation of \<^verbatim>\<open>enhance_audio_for_speech\<close>\<close>

text \<open>\<^verbatim>\<open>np.max(np.abs(a))\<close> raises \<^verbatim>\<open>ValueError\<close> on an empty array.\<close>

definition np_max_abs :: "real list \<Rightarrow> py_error + real" where
  "np_max_abs a = (if a = [] then Inl ValueError else Inr (Max (set (map abs a))))"

text \<open>
  Lines 290 to 293: \<^verbatim>\<open>max_val = np.max(np.abs(audio))\<close>, then
  \<^verbatim>\<open>audio = audio / max_val * 0.85\<close> when \<^verbatim>\<open>max_val > 0\<close>.
\<close>

definition final_normalize :: "real list \<Rightarrow> py_error + real list" where
  "final_normalize audio =
     (case np_max_abs audio of
        Inl e \<Rightarrow> Inl e
      | Inr max_val \<Rightarrow>
          if max_val > 0 then Inr (map (\<lambda>x. x / max_val * 0.85) audio) else Inr audio)"

section \<open>Event protocol and batch transcription\<close>

text \<open>
  The value handed to \<^verbatim>\<open>json.dumps\<close>. An object keeps its keys in the order of the
  dict literal.
\<close>

datatype json =
    JString string
  | JFloat real
  | JArray "json list"
  | JObject "(string \<times> json) list"

text \<open>A Python dict with string keys, and \<^verbatim>\<open>d.get(key, default)\<close>.\<close>

type_synonym dict = "string \<rightharpoonup> json"

definition dict_get :: "dict \<Rightarrow> string \<Rightarrow> json \<Rightarrow> json" where
  "dict_get d k dflt = (case d k of None \<Rightarrow> dflt | Some v \<Rightarrow> v)"

text \<open>\<^verbatim>\<open>str(i)\<close> for an int: decimal digits, with a sign when negative.\<close>

fun dec_digits :: "nat \<Rightarrow> string" where
  "dec_digits n =
     (if n < 10 then [''0123456789'' ! n]
      else dec_digits (n div 10) @ [''0123456789'' ! (n mod 10)])"

definition py_str_int :: "int \<Rightarrow> string" where
  "py_str_int i = (if i < 0 then CHR ''-'' # dec_digits (nat (- i)) else dec_digits (nat i))"

text \<open>\<^verbatim>\<open>str(int(time.time() * 1000))\<close>, the event id, for the clock reading \<open>now\<close>.\<close>

definition event_id :: "real \<Rightarrow> string" where
  "event_id now = py_str_int (py_int (now * 1000))"

text \<open>
  \<^verbatim>\<open>s.strip()\<close> and \<^verbatim>\<open>" ".join(xs)\<close>. A string is a list of bytes here, so
  \<open>is_space\<close> is \<^verbatim>\<open>str.isspace\<close> on the ASCII range: tab to carriage return, the
  four separators \<^verbatim>\<open>0x1C\<close> to \<^verbatim>\<open>0x1F\<close>, and the space. White space beyond ASCII
  (\<^verbatim>\<open>U+0085\<close>, \<^verbatim>\<open>U+00A0\<close> and the other Unicode spaces) is several bytes in this
  model and is not stripped.
\<close>

definition is_space :: "char \<Rightarrow> bool" where
  "is_space c =
     (c \<in> set [CHR '' '', CHR 0x09, CHR 0x0A, CHR 0x0B, CHR 0x0C, CHR 0x0D,
               CHR 0x1C, CHR 0x1D, CHR 0x1E, CHR 0x1F])"

definition py_strip :: "string \<Rightarrow> string" where
  "py_strip s = rev (dropWhile is_space (rev (dropWhile is_space s)))"


subsection \<open>\<^verbatim>\<open>transcribe_wav_base64\<close> (\<^verbatim>\<open>loopback_transcribe.py\<close>, lines 351 to 443)\<close>
















subsection \<open>Transcription events of the three workers\<close>

text \<open>
  \<^verbatim>\<open>loopback_transcribe.main\<close>, lines 577 to 589: the record printed for a result
  dict, when the stripped text has at least three characters.
\<close>

definition loopback_transcription :: "real \<Rightarrow> dict \<Rightarrow> json list" where
  "loopback_transcription now result =
     (case dict_get result ''text'' (JString '''') of
        JString t \<Rightarrow>
          (let text = py_strip t
           in if text \<noteq> [] \<and> length text > 2
              then [JObject [(''type'', JString ''transcription''),
                             (''id'', JString (event_id now)),
                             (''text'', JString text),
                             (''words'', dict_get result ''words'' (JArray [])),
                             (''confidence'',
                                dict_get result ''language_probability'' (JFloat 0.9))]]
              else [])
      | _ \<Rightarrow> [])"

text \<open>\<^verbatim>\<open>deepgram_transcribe.transcription_log\<close>, lines 169 to 177.\<close>

definition transcription_log :: "real \<Rightarrow> string \<Rightarrow> real \<Rightarrow> json" where
  "transcription_log now text confidence =
     JObject [(''type'', JString ''transcription''),
              (''id'', JString (event_id now)),
              (''text'', JString text),
              (''confidence'', JFloat confidence)]"

text \<open>
  \<^verbatim>\<open>loopback_transcribe_deepgram_safe.main\<close>, lines 286 to 294: the record printed
  for the text returned by \<^verbatim>\<open>transcribe_audio\<close>, when it is not empty.
\<close>

definition safe_transcription :: "real \<Rightarrow> string \<Rightarrow> json list" where
  "safe_transcription now text =
     (if text \<noteq> [] then
        [JObject [(''type'', JString ''transcription''),
                  (''text'', JString text),
                  (''timestamp'', JFloat now)]]
      else [])"

text \<open>
  The record shape of the event protocol: \<^verbatim>\<open>"type":"transcription"\<close>, a string
  \<^verbatim>\<open>"id"\<close>, a string \<^verbatim>\<open>"text"\<close> and a float \<^verbatim>\<open>"confidence"\<close>; other keys
  (\<^verbatim>\<open>"words"\<close>) are free.
\<close>

definition is_string :: "json option \<Rightarrow> bool" where
  "is_string v = (case v of Some (JString s) \<Rightarrow> True | _ \<Rightarrow> False)"

definition is_float :: "json option \<Rightarrow> bool" where
  "is_float v = (case v of Some (JFloat x) \<Rightarrow> True | _ \<Rightarrow> False)"

definition transcription_record :: "json \<Rightarrow> bool" where
  "transcription_record ev =
     (case ev of
        JObject kvs \<Rightarrow>
          map_of kvs ''type'' = Some (JString ''transcription'') \<and>
          is_string (map_of kvs ''id'') \<and>
          is_string (map_of kvs ''text'') \<and>
          is_float (map_of kvs ''confidence'')
      | _ \<Rightarrow> False)"

section \<open>Streaming worker: \<^verbatim>\<open>keepalive_loop\<close> and \<^verbatim>\<open>audio_capture_and_stream\<close>\<close>

text \<open>
  The two threads of \<^verbatim>\<open>deepgram_transcribe.py\<close> share the event
  \<^verbatim>\<open>audio_streaming_started\<close> and the connection. Each thread is a small-step machine
  over its own program counter; a schedule picks the thread that takes the next step.
  The connection is a mock that records the order of its \<^verbatim>\<open>send_media\<close> calls and
  never fails.
\<close>

datatype sent = KeepaliveSilence | RealAudio

datatype keepalive_pc =
    K_Start     \<comment> \<open>line 184, \<^verbatim>\<open>time.sleep(0.3)\<close>\<close>
  | K_Test      \<comment> \<open>line 189, \<^verbatim>\<open>while not audio_streaming_started.is_set()\<close>\<close>
  | K_Send      \<comment> \<open>lines 191 to 200, \<^verbatim>\<open>connection.send_media(silent_audio.tobytes())\<close>\<close>
  | K_Sleep     \<comment> \<open>line 204, \<^verbatim>\<open>time.sleep(0.5)\<close>\<close>
  | K_Stopped   \<comment> \<open>line 212, after the loop\<close>

datatype audio_pc =
    A_Read      \<comment> \<open>lines 442 to 459, read, downmix, resample, append to the buffer\<close>
  | A_Chunk     \<comment> \<open>lines 462 to 468, \<^verbatim>\<open>while len(audio_buffer) >= min_send_samples\<close>\<close>
  | A_Send      \<comment> \<open>line 474, \<^verbatim>\<open>connection.send_media(pcm_data)\<close>\<close>
  | A_Mark      \<comment> \<open>lines 476 to 477, \<^verbatim>\<open>audio_streaming_started.set()\<close>\<close>
  | A_Exit      \<comment> \<open>line 496, after the loop\<close>

record streaming =
  audio_streaming_started :: bool
  wire :: "sent list"
  kpc :: keepalive_pc
  count :: nat
  apc :: audio_pc
  buffered :: nat
  pending :: "nat list"

definition min_send_samples :: nat where
  "min_send_samples = nat (TARGET_SR div 10)"

text \<open>One statement of \<^verbatim>\<open>keepalive_loop\<close>.\<close>

definition keepalive_step :: "streaming \<Rightarrow> streaming" where
  "keepalive_step s =
     (case kpc s of
        K_Start \<Rightarrow> s\<lparr>kpc := K_Test\<rparr>
      | K_Test \<Rightarrow>
          if audio_streaming_started s then s\<lparr>kpc := K_Stopped\<rparr> else s\<lparr>kpc := K_Send\<rparr>
      | K_Send \<Rightarrow> s\<lparr>wire := wire s @ [KeepaliveSilence], count := count s + 1, kpc := K_Sleep\<rparr>
      | K_Sleep \<Rightarrow> s\<lparr>kpc := K_Test\<rparr>
      | K_Stopped \<Rightarrow> s)"

text \<open>
  One statement of \<^verbatim>\<open>audio_capture_and_stream\<close>. \<open>pending\<close> holds the lengths of the
  resampled frames the device still delivers; the thread leaves its loop when there is
  none left.
\<close>

definition audio_step :: "streaming \<Rightarrow> streaming" where
  "audio_step s =
     (case apc s of
        A_Read \<Rightarrow>
          (case pending s of
             [] \<Rightarrow> s\<lparr>apc := A_Exit\<rparr>
           | f # fs \<Rightarrow> s\<lparr>buffered := buffered s + f, pending := fs, apc := A_Chunk\<rparr>)
      | A_Chunk \<Rightarrow>
          if buffered s \<ge> min_send_samples
          then s\<lparr>buffered := buffered s - min_send_samples, apc := A_Send\<rparr>
          else s\<lparr>apc := A_Read\<rparr>
      | A_Send \<Rightarrow> s\<lparr>wire := wire s @ [RealAudio], apc := A_Mark\<rparr>
      | A_Mark \<Rightarrow> s\<lparr>audio_streaming_started := True, apc := A_Chunk\<rparr>
      | A_Exit \<Rightarrow> s)"

datatype thread = Keepalive | Audio

definition step :: "streaming \<Rightarrow> thread \<Rightarrow> streaming" where
  "step s t = (case t of Keepalive \<Rightarrow> keepalive_step s | Audio \<Rightarrow> audio_step s)"

definition run :: "thread list \<Rightarrow> streaming \<Rightarrow> streaming" where
  "run schedule s = foldl step s schedule"

text \<open>Both threads at their first statement, the event clear, nothing sent.\<close>

definition initial :: "nat list \<Rightarrow> streaming" where
  "initial fs =
     \<lparr>audio_streaming_started = False, wire = [], kpc = K_Start, count = 0,
      apc = A_Read, buffered = 0, pending = fs\<rparr>"

text \<open>The number of keepalive sends among the recorded calls.\<close>

fun keepalives :: "sent list \<Rightarrow> nat" where
  "keepalives [] = 0"
| "keepalives (x # xs) = (if x = KeepaliveSilence then 1 else 0) + keepalives xs"

section \<open>Helper facts\<close>

lemma max_buffer_samples_eq: "max_buffer_samples = 80000"
  by (simp add: max_buffer_samples_def TARGET_SR_def buffer_duration_def py_int_def)

lemma process_samples_eq: "process_samples = 16000"
  by (simp add: process_samples_def TARGET_SR_def process_interval_def py_int_def)

lemma overlap_size_eq: "overlap_size = 8000"
  by (simp add: overlap_size_def TARGET_SR_def py_int_def)

lemma window_size_eq: "window_size b = min 48000 (int (length b))"
  by (simp add: window_size_def TARGET_SR_def py_int_def)

lemma length_py_slice_from_le: "length (py_slice_from i xs) \<le> length xs"
  by (simp add: py_slice_from_def Let_def)

lemma length_append_and_trim: "int (length (append_and_trim b f)) \<le> max_buffer_samples"
  by (auto simp: append_and_trim_def py_slice_from_def Let_def max_buffer_samples_eq)

lemma length_speech_trim_le: "length (speech_trim b) \<le> length b"
  by (simp add: speech_trim_def Let_def length_py_slice_from_le)

lemma length_silence_trim_le: "length (silence_trim b) \<le> length b"
  by (simp add: silence_trim_def Let_def length_py_slice_from_le)

lemma length_buffer_iteration: "int (length (buffer_iteration b f)) \<le> max_buffer_samples"
proof -
  let ?a = "append_and_trim b f"
  have a: "int (length ?a) \<le> max_buffer_samples"
    by (rule length_append_and_trim)
  have "length (buffer_iteration b f) \<le> length ?a"
    by (simp add: buffer_iteration_def Let_def length_speech_trim_le length_silence_trim_le)
  with a show ?thesis by linarith
qed

lemma length_foldl_buffer_iteration:
  "int (length b) \<le> max_buffer_samples \<Longrightarrow>
   int (length (foldl buffer_iteration b fs)) \<le> max_buffer_samples"
  by (induction fs arbitrary: b) (simp_all add: length_buffer_iteration)

lemma take_drop_nonempty:
  fixes j k :: nat
  assumes "j < k" and "k < length xs"
  shows "take (k - j) (drop j xs) \<noteq> []"
proof -
  have "length (take (k - j) (drop j xs)) = min (length xs - j) (k - j)"
    by simp
  also have "\<dots> > 0" using assms by linarith
  finally show ?thesis by auto
qed

section \<open>Resampler claims\<close>

text \<open>
  C4: when the source rate equals the destination rate, \<^verbatim>\<open>resample_linear\<close> returns
  its input samples unchanged, for every frame and every rate.
\<close>

theorem resample_linear_same_rate: "resample_linear data sr sr = Inr data"
  by (simp add: resample_linear_def)

theorem resample_linear_same_rate_witness:
  "resample_linear [1 / 4, - 1 / 2, 3 / 4] 16000 16000 = Inr [1 / 4, - 1 / 2, 3 / 4]"
  using resample_linear_same_rate [of "[1 / 4, - 1 / 2, 3 / 4]" 16000] by simp

text \<open>
  C3, as amended: for an input of length at most one, a positive source rate and a
  non-negative destination rate, \<^verbatim>\<open>resample_linear\<close> never raises; it returns the input
  unchanged when the two rates are equal, and otherwise a zero-filled buffer of length
  \<^verbatim>\<open>int(len(data) * (dst_sr / src_sr))\<close>.
\<close>

theorem resample_linear_short:
  assumes "length data \<le> 1" and "0 < src_sr" and "0 \<le> dst_sr"
  shows "resample_linear data src_sr dst_sr =
           (if src_sr = dst_sr then Inr data
            else Inr (replicate
                   (nat (py_int (real (length data) * (real_of_int dst_sr / real_of_int src_sr))))
                   0))"
proof -
  have "0 \<le> real (length data) * (real_of_int dst_sr / real_of_int src_sr)"
    using assms by simp
  then have "0 \<le> py_int (real (length data) * (real_of_int dst_sr / real_of_int src_sr))"
    by (simp add: py_int_def)
  then show ?thesis
    using assms by (simp add: resample_linear_def Let_def np_zeros_def)
qed

theorem resample_linear_short_witness:
  "resample_linear [1 / 2] 48000 16000 = Inr [] \<and>
   resample_linear [1 / 2] 16000 48000 = Inr [0, 0, 0] \<and>
   resample_linear [1 / 2] 16000 16000 = Inr [1 / 2]"
  using resample_linear_short [of "[1 / 2]" 48000 16000]
    resample_linear_short [of "[1 / 2]" 16000 48000]
    resample_linear_short [of "[1 / 2]" 16000 16000]
  by (simp add: py_int_def numeral_3_eq_3)

text \<open>
  The claim as stated fails: with equal rates a one-sample input comes back unchanged,
  so the result is not zero-filled.
\<close>

theorem resample_linear_short_counterexample:
  "length [1 / 2 :: real] \<le> 1 \<and>
   resample_linear [1 / 2] 16000 16000 \<noteq>
     Inr (replicate (nat (py_int (real (length [1 / 2 :: real]) *
            (real_of_int 16000 / real_of_int 16000)))) 0)"
  by (simp add: resample_linear_def py_int_def)

section \<open>Segmentation buffer claims\<close>

text \<open>
  C5: after the append-and-trim step the rolling buffer holds at most
  \<^verbatim>\<open>max_buffer_samples\<close> (80000, five seconds at 16 kHz) samples, whatever the buffer
  and the appended frame were; and so does the buffer after any number of loop
  iterations started from the empty buffer.
\<close>

theorem buffer_bounded:
  "int (length (append_and_trim audio_buffer mono16k)) \<le> max_buffer_samples \<and>
   max_buffer_samples = 80000 \<and>
   int (length (capture_loop frames)) \<le> max_buffer_samples \<and>
   int (length (append_and_trim (capture_loop frames) mono16k)) \<le> max_buffer_samples"
proof -
  have "int (length (capture_loop frames)) \<le> max_buffer_samples"
    unfolding capture_loop_def
    by (rule length_foldl_buffer_iteration) (simp add: max_buffer_samples_eq)
  moreover note length_append_and_trim [of audio_buffer mono16k]
    length_append_and_trim [of "capture_loop frames" mono16k] max_buffer_samples_eq
  ultimately show ?thesis by blast
qed

theorem buffer_bounded_witness:
  "int (length (append_and_trim (replicate 79999 0) [1 / 2, 1 / 4])) \<le> max_buffer_samples"
  using buffer_bounded [of "replicate 79999 0" "[1 / 2, 1 / 4]" "[]"] by simp

text \<open>
  C6: on the speech branch (the buffer holds at least \<^verbatim>\<open>process_samples\<close> and at
  most \<^verbatim>\<open>max_buffer_samples\<close> samples) the front truncation removes exactly
  \<^verbatim>\<open>window_size - overlap_size\<close> samples, the overlap is half a second (8000 samples),
  at least 0 and strictly less than the window length, and what stays in the buffer is a
  proper suffix of the dispatched window.
\<close>

theorem speech_trim_overlap:
  assumes "process_samples \<le> int (length audio_buffer)"
    and "int (length audio_buffer) \<le> max_buffer_samples"
  shows "speech_trim audio_buffer =
           drop (nat (window_size audio_buffer - overlap_size)) audio_buffer \<and>
         int (length (speech_trim audio_buffer)) =
           int (length audio_buffer) - (window_size audio_buffer - overlap_size) \<and>
         overlap_size = 8000 \<and> 0 \<le> overlap_size \<and>
         overlap_size < window_size audio_buffer \<and>
         int (length (process_audio audio_buffer)) = window_size audio_buffer \<and>
         length (speech_trim audio_buffer) < length (process_audio audio_buffer) \<and>
         (\<exists>front. front \<noteq> [] \<and> process_audio audio_buffer = front @ speech_trim audio_buffer)"
proof -
  let ?n = "int (length audio_buffer)"
  let ?w = "window_size audio_buffer"
  let ?k = "nat (?w - overlap_size)"
  let ?j = "nat (?n - ?w)"
  have n: "16000 \<le> ?n" "?n \<le> 80000"
    using assms by (simp_all add: process_samples_eq max_buffer_samples_eq)
  have w: "?w = 48000 \<and> 48000 \<le> ?n \<or> ?w = ?n \<and> ?n < 48000"
    unfolding window_size_eq by linarith
  note o = overlap_size_eq
  have guard: "?w \<le> ?n" "?w - overlap_size < ?n" "\<not> ?w - overlap_size < 0"
    using n w o by linarith+
  have trim: "speech_trim audio_buffer = drop ?k audio_buffer"
    using guard by (simp add: speech_trim_def Let_def py_slice_from_def)
  have win: "process_audio audio_buffer = drop ?j audio_buffer"
  proof (cases "?w = 0")
    case True
    then show ?thesis using n w by linarith
  next
    case False
    then have "- ?w < 0" "max (?n + - ?w) 0 = ?n - ?w"
      using n w by linarith+
    then show ?thesis
      by (simp add: process_audio_def py_slice_from_def Let_def)
  qed
  have le: "?j < ?k" and lt: "?k < length audio_buffer"
    using n w o by linarith+
  have split: "drop ?j audio_buffer = take (?k - ?j) (drop ?j audio_buffer) @ drop ?k audio_buffer"
  proof -
    have "?k - ?j + ?j = ?k"
      using le by linarith
    then have "drop (?k - ?j) (drop ?j audio_buffer) = drop ?k audio_buffer"
      by (simp only: drop_drop)
    then show ?thesis
      by (metis append_take_drop_id)
  qed
  have front: "take (?k - ?j) (drop ?j audio_buffer) \<noteq> []"
    using le lt by (rule take_drop_nonempty)
  have ex: "\<exists>front. front \<noteq> [] \<and> process_audio audio_buffer = front @ speech_trim audio_buffer"
    using split front unfolding trim win by blast
  have l1: "int (length (speech_trim audio_buffer)) = ?n - (?w - overlap_size)"
    unfolding trim length_drop using lt guard by linarith
  have l2: "int (length (process_audio audio_buffer)) = ?w"
    unfolding win length_drop using guard n w by linarith
  have l3: "length (speech_trim audio_buffer) < length (process_audio audio_buffer)"
    using l1 l2 n w o by linarith
  have "overlap_size < ?w" "0 \<le> overlap_size"
    using n w o by linarith+
  with trim l1 l2 l3 ex o show ?thesis
    by blast
qed


theorem speech_trim_overlap_witness:
  "process_samples \<le> int (length (replicate 16000 (0::real))) \<and>
   int (length (replicate 16000 (0::real))) \<le> max_buffer_samples \<and>
   speech_trim (replicate 16000 (0::real)) = replicate 8000 0 \<and>
   length (process_audio (replicate 16000 (0::real))) = 16000"
  using speech_trim_overlap [of "replicate 16000 0"]
  by (simp add: process_samples_eq max_buffer_samples_eq window_size_eq overlap_size_eq)

section \<open>Detector and enhancer facts\<close>

lemma sum_list_map_zero:
  "(\<And>x. x \<in> set xs \<Longrightarrow> f x = 0) \<Longrightarrow> sum_list (map f xs) = (0::'a::comm_monoid_add)"
  by (induction xs) simp_all

lemma np_fft_zeros: "np_fft (replicate n 0) = replicate n 0"
proof -
  have "(\<Sum>m\<leftarrow>[0..<n]. complex_of_real (replicate n 0 ! m) *
           cis (- (2 * pi * real k * real m / real n))) = 0" for k
    by (rule sum_list_map_zero) simp
  then show ?thesis
    by (simp add: np_fft_def map_replicate_const)
qed

lemma fft_sum_zeros: "fft_sum (replicate n 0) = 0"
  by (simp add: fft_sum_def fft_magnitude_def np_fft_zeros Let_def take_replicate
      sum_list_replicate)

lemma mean_square_zeros: "mean_square (replicate n 0) = 0"
  by (simp add: mean_square_def sum_list_replicate)

lemma Max_abs_scale:
  fixes c :: real
  assumes "a \<noteq> []" and "0 \<le> c"
  shows "Max (set (map abs (map (\<lambda>x. x * c) a))) = Max (set (map abs a)) * c"
proof -
  have "Max ((\<lambda>y. y * c) ` set (map abs a)) = Max (set (map abs a)) * c"
    using assms by (intro mono_Max_commute [symmetric]) (auto simp: mono_def mult_right_mono)
  moreover have "set (map abs (map (\<lambda>x. x * c) a)) = (\<lambda>y. y * c) ` set (map abs a)"
    using assms by (auto simp: abs_mult image_iff)
  ultimately show ?thesis by simp
qed

lemma final_normalize_peak:
  assumes "np_max_abs audio = Inr m" and "0 < m"
  shows "\<exists>once. final_normalize audio = Inr once \<and> np_max_abs once = Inr 0.85"
proof -
  have ne: "audio \<noteq> []" and m: "m = Max (set (map abs audio))"
    using assms by (auto simp: np_max_abs_def split: if_splits)
  let ?once = "map (\<lambda>x. x * (0.85 / m)) audio"
  have f: "final_normalize audio = Inr ?once"
    using assms by (simp add: final_normalize_def)
  have "Max (set (map abs ?once)) = m * (0.85 / m)"
    unfolding m using ne assms by (intro Max_abs_scale) (auto simp: m)
  then have "np_max_abs ?once = Inr 0.85"
    using ne assms by (simp add: np_max_abs_def)
  with f show ?thesis by blast
qed

section \<open>The detector refines the specification's classification\<close>

lemma sum_list_nth: "sum_list (map f xs) = (\<Sum>m\<leftarrow>[0..<length xs]. f (xs ! m))"
proof -
  have "map f xs = map (\<lambda>m. f (xs ! m)) [0..<length xs]"
    by (rule nth_equalityI) simp_all
  then show ?thesis by simp
qed

lemma mean_square_spec: "mean_square a = spec_energy a"
  unfolding mean_square_def spec_energy_def by (simp only: sum_list_nth [of "\<lambda>x. x\<^sup>2" a])

lemma np_diff_nth:
  "np_diff xs = map (\<lambda>m. xs ! Suc m - xs ! m) [0..<length xs - 1]"
  unfolding np_diff_def
  by (rule nth_equalityI) (simp_all add: nth_tl)

lemma zero_crossing_rate_spec: "zero_crossing_rate a = spec_zcr a"
proof -
  have "np_diff (map sgn a) = map (\<lambda>m. sgn (a ! Suc m) - sgn (a ! m)) [0..<length a - 1]"
    unfolding np_diff_nth by (rule nth_equalityI) simp_all
  then show ?thesis
    by (simp add: zero_crossing_rate_def spec_zcr_def comp_def)
qed

lemma fft_magnitude_spec:
  "fft_magnitude a = map (\<lambda>k. cmod (spec_dft a k)) [0..<length a]"
  by (simp add: fft_magnitude_def np_fft_def spec_dft_def)

lemma take_half_upt: "take (n div 2) (map f [0..<n]) = map f [0..<n div 2]"
  by (simp add: take_map)

lemma fft_sum_spec: "fft_sum a = spec_magnitude_total a"
  by (simp add: fft_sum_def Let_def fft_magnitude_spec spec_magnitude_total_def take_map)

lemma weighted_sum_spec:
  assumes "sample_rate \<noteq> 0"
  shows "weighted_sum a (np_fftfreq (length a) (1 / real_of_int sample_rate)) =
         (\<Sum>k\<leftarrow>[0..<length a div 2].
              (real k * real_of_int sample_rate / real (length a)) * cmod (spec_dft a k))"
proof -
  let ?n = "length a"
  let ?f = "\<lambda>i. (if i \<le> (?n - 1) div 2 then real i else real i - real ?n) *
                 (1 / (real ?n * (1 / real_of_int sample_rate)))"
  let ?g = "\<lambda>k. cmod (spec_dft a k)"
  have z: "zip (map ?f [0..<?n div 2]) (map ?g [0..<?n div 2]) =
           map (\<lambda>k. (?f k, ?g k)) [0..<?n div 2]"
    by (simp add: zip_map_map zip_same_conv_map)
  have "weighted_sum a (np_fftfreq ?n (1 / real_of_int sample_rate)) =
        (\<Sum>k\<leftarrow>[0..<?n div 2]. ?f k * ?g k)"
    unfolding weighted_sum_def Let_def fft_magnitude_spec np_fftfreq_def
    by (simp only: length_map length_upt minus_nat.diff_0 take_half_upt z map_map comp_def
          prod.case)
  also have "\<dots> = (\<Sum>k\<leftarrow>[0..<?n div 2].
              (real k * real_of_int sample_rate / real ?n) * ?g k)"
  proof (rule arg_cong [where f = sum_list], rule map_cong [OF refl])
    fix k assume "k \<in> set [0..<?n div 2]"
    then have "k \<le> (?n - 1) div 2" by auto
    then show "?f k * ?g k = (real k * real_of_int sample_rate / real ?n) * ?g k"
      by simp
  qed
  finally show ?thesis .
qed

lemma spectral_centroid_spec:
  assumes "sample_rate \<noteq> 0"
  shows "spectral_centroid a (np_fftfreq (length a) (1 / real_of_int sample_rate)) =
           Some (spec_centroid a sample_rate)"
proof -
  have "0 \<le> spec_magnitude_total a"
    unfolding spec_magnitude_total_def by (rule sum_list_nonneg) auto
  then show ?thesis
    using assms
    by (auto simp: spectral_centroid_def np_true_divide_def fft_sum_spec
        weighted_sum_spec spec_centroid_def)
qed

lemma detect_speech_activity_refines:
  assumes "sample_rate \<noteq> 0"
  shows "detect_speech_activity audio sample_rate = Inr (spec_confirmed_speech audio sample_rate)"
  using assms
  by (simp add: detect_speech_activity_def Let_def spec_confirmed_speech_def
      mean_square_spec zero_crossing_rate_spec spectral_centroid_spec in_band_def)

lemma cis_minus_pi: "cis (- pi) = - 1"
  by (simp add: cis.ctr complex_eq_iff)

lemma cis_minus_3pi_half: "cis (- (pi * 3 / 2)) = \<i>"
proof -
  have "cis (- pi) * cis (- (pi / 2)) = cis (- pi + - (pi / 2))"
    by (rule cis_mult)
  also have "- pi + - (pi / 2) = - (pi * 3 / 2)"
    by simp
  finally have "cis (- (pi * 3 / 2)) = cis (- pi) * cis (- (pi / 2))"
    by simp
  then show ?thesis
    by (simp only: cis_minus_pi cis_minus_pi_half) simp
qed

lemma dft_example:
  "spec_dft [1 / 2, 1 / 4, 1 / 4, 1 / 4] 0 = 5 / 4"
  "spec_dft [1 / 2, 1 / 4, 1 / 4, 1 / 4] (Suc 0) = 1 / 4"
  by (simp_all add: spec_dft_def upt_conv_Cons cis_minus_pi cis_minus_3pi_half)

lemma centroid_example:
  "spec_magnitude_total [1 / 2, 1 / 4, 1 / 4, 1 / 4] = 3 / 2"
  "spec_centroid [1 / 2, 1 / 4, 1 / 4, 1 / 4] 16000 = 2000 / 3"
  "spec_zcr [1 / 2, 1 / 4, 1 / 4, 1 / 4] = 0"
  "spec_energy [1 / 2, 1 / 4, 1 / 4, 1 / 4] = 7 / 64"
  by (simp_all add: spec_magnitude_total_def spec_centroid_def spec_zcr_def spec_energy_def
      dft_example upt_conv_Cons power2_eq_square)

lemma quiet_example:
  "spec_energy [1 / 100, 1 / 100, 1 / 100, 1 / 100, - 1 / 100, - 1 / 100, - 1 / 100, - 1 / 100]
     = 1 / 10000"
  "spec_zcr [1 / 100, 1 / 100, 1 / 100, 1 / 100, - 1 / 100, - 1 / 100, - 1 / 100, - 1 / 100]
     = 1 / 8"
  by (simp_all add: spec_zcr_def spec_energy_def upt_conv_Cons power2_eq_square)

lemma spec_energy_zeros: "spec_energy (replicate n 0) = 0"
  unfolding mean_square_spec [symmetric] by (rule mean_square_zeros)

text \<open>
  The code's own intermediate values on the window \<^verbatim>\<open>[0.5, 0.25, 0.25, 0.25]\<close> at
  16 kHz, computed from the embedding of the code alone.
\<close>

lemma detector_features_example:
  "fft_sum [1 / 2, 1 / 4, 1 / 4, 1 / 4] = 3 / 2"
  "weighted_sum [1 / 2, 1 / 4, 1 / 4, 1 / 4] (np_fftfreq 4 (1 / 16000)) = 1000"
  "mean_square [1 / 2, 1 / 4, 1 / 4, 1 / 4] = 7 / 64"
  "zero_crossing_rate [1 / 2, 1 / 4, 1 / 4, 1 / 4] = 0"
  by (simp_all add: fft_sum_def weighted_sum_def fft_magnitude_def np_fft_def np_fftfreq_def
      mean_square_def zero_crossing_rate_def np_diff_def Let_def
      upt_conv_Cons cis_minus_pi cis_minus_3pi_half power2_eq_square)

section \<open>Detector claims\<close>

text \<open>
  C2: for every window and every non-zero sample rate, \<^verbatim>\<open>detect_speech_activity\<close>
  returns True exactly when the window is confirmed speech in the specification's sense:
  the mean-square energy exceeds 0.001, and the zero-crossing rate lies strictly between
  0.01 and 0.3 or the spectral centroid (the magnitude-weighted mean frequency of the half
  spectrum) lies strictly between 200 and 4000. Whenever the energy does not exceed 0.001
  the result is False, whatever the other two signals are; a window of zeros has energy 0
  and is classified as non-speech.
\<close>

theorem detect_speech_activity_iff:
  assumes "sample_rate \<noteq> 0"
  shows "detect_speech_activity audio sample_rate =
           Inr (spec_confirmed_speech audio sample_rate) \<and>
         (spec_energy audio \<le> 0.001 \<longrightarrow>
            detect_speech_activity audio sample_rate = Inr False) \<and>
         spec_energy (replicate n 0) = 0 \<and>
         detect_speech_activity (replicate n 0) sample_rate = Inr False"
proof -
  have d: "detect_speech_activity a sample_rate = Inr (spec_confirmed_speech a sample_rate)"
    for a
    using assms by (rule detect_speech_activity_refines)
  have e: "spec_energy a \<le> 0.001 \<Longrightarrow> \<not> spec_confirmed_speech a sample_rate" for a
    by (simp add: spec_confirmed_speech_def)
  have z: "spec_energy (replicate n 0) = 0"
    by (rule spec_energy_zeros)
  have "\<not> spec_confirmed_speech (replicate n 0) sample_rate"
    by (rule e) (simp add: z)
  with d e z show ?thesis by simp
qed

theorem detect_speech_activity_iff_witness:
  "(16000::int) \<noteq> 0 \<and>
   detect_speech_activity [1 / 2, 1 / 4, 1 / 4, 1 / 4] 16000 = Inr True \<and>
   spec_zcr [1 / 2, 1 / 4, 1 / 4, 1 / 4] = 0 \<and>
   spec_centroid [1 / 2, 1 / 4, 1 / 4, 1 / 4] 16000 = 2000 / 3 \<and>
   detect_speech_activity [1 / 2, 1 / 2, 1 / 2, 1 / 2, - 1 / 2, - 1 / 2, - 1 / 2, - 1 / 2] 16000
     = Inr True \<and>
   spec_zcr [1 / 100, 1 / 100, 1 / 100, 1 / 100, - 1 / 100, - 1 / 100, - 1 / 100, - 1 / 100]
     = 1 / 8 \<and>
   detect_speech_activity
     [1 / 100, 1 / 100, 1 / 100, 1 / 100, - 1 / 100, - 1 / 100, - 1 / 100, - 1 / 100] 16000
     = Inr False \<and>
   detect_speech_activity (replicate 4 0) 16000 = Inr False"
proof -
  let ?tone = "[1 / 2, 1 / 4, 1 / 4, 1 / 4] :: real list"
  let ?square = "[1 / 2, 1 / 2, 1 / 2, 1 / 2, - 1 / 2, - 1 / 2, - 1 / 2, - 1 / 2] :: real list"
  let ?quiet = "[1 / 100, 1 / 100, 1 / 100, 1 / 100,
                 - 1 / 100, - 1 / 100, - 1 / 100, - 1 / 100] :: real list"
  have nz: "(16000::int) \<noteq> 0"
    by simp
  have a: "spec_confirmed_speech ?tone 16000"
    by (simp add: spec_confirmed_speech_def centroid_example)
  have b: "spec_confirmed_speech ?square 16000"
    by (simp add: spec_confirmed_speech_def spec_zcr_def spec_energy_def upt_conv_Cons
        power2_eq_square)
  have c: "spec_energy ?quiet \<le> 0.001"
    by (simp add: spec_energy_def upt_conv_Cons power2_eq_square)
  have q: "spec_zcr ?quiet = 1 / 8"
    by (simp add: spec_zcr_def upt_conv_Cons)
  note tone = detect_speech_activity_iff [OF nz, of ?tone 4]
  note square = detect_speech_activity_iff [OF nz, of ?square 4]
  note quiet = detect_speech_activity_iff [OF nz, of ?quiet 4]
  have w1: "detect_speech_activity ?tone 16000 = Inr True"
    using tone a by simp
  have w2: "detect_speech_activity ?square 16000 = Inr True"
    using square b by simp
  have w3: "detect_speech_activity ?quiet 16000 = Inr False"
    using quiet c by blast
  have w4: "detect_speech_activity (replicate 4 0) 16000 = Inr False"
    using tone by blast
  show ?thesis
    using nz w1 w2 w3 w4 q centroid_example(2,3) by blast
qed

text \<open>
  C7: the centroid is never the result of a division by zero. When the half-spectrum
  magnitude sum is zero (as for every all-zero window) the centroid is 0, and the quotient
  is formed only when the sum is strictly positive.
\<close>

theorem spectral_centroid_guarded:
  "spectral_centroid audio freqs \<noteq> None \<and>
   (fft_sum audio = 0 \<longrightarrow> spectral_centroid audio freqs = Some 0) \<and>
   (spectral_centroid audio freqs =
      (if 0 < fft_sum audio then Some (weighted_sum audio freqs / fft_sum audio) else Some 0)) \<and>
   fft_sum (replicate n 0) = 0 \<and>
   spectral_centroid (replicate n 0) freqs = Some 0"
  by (simp add: spectral_centroid_def np_true_divide_def fft_sum_zeros)

theorem spectral_centroid_guarded_witness:
  "fft_sum [0, 0, 0, 0] = 0 \<and>
   spectral_centroid [0, 0, 0, 0] (np_fftfreq 4 (1 / 16000)) = Some 0"
proof -
  have r: "[0, 0, 0, 0 :: real] = replicate 4 0"
    by (simp add: numeral_eq_Suc)
  show ?thesis
    unfolding r
    using spectral_centroid_guarded [of "replicate 4 0" "np_fftfreq 4 (1 / 16000)" 4]
    by simp
qed

section \<open>Enhancer claims\<close>

text \<open>
  C8: for every signal with a non-zero peak, the final peak normalisation brings the peak
  to 0.85, and applying it a second time leaves the peak where the first application put
  it (in exact arithmetic).
\<close>

theorem final_normalize_idempotent:
  assumes "np_max_abs audio = Inr m" and "0 < m"
  shows "\<exists>once twice. final_normalize audio = Inr once \<and> final_normalize once = Inr twice \<and>
           np_max_abs once = Inr 0.85 \<and> np_max_abs twice = np_max_abs once"
proof -
  obtain once where o: "final_normalize audio = Inr once" "np_max_abs once = Inr 0.85"
    using final_normalize_peak [OF assms] by blast
  obtain twice where t: "final_normalize once = Inr twice" "np_max_abs twice = Inr 0.85"
    using final_normalize_peak [OF o(2)] by auto
  show ?thesis using o t by simp
qed

theorem final_normalize_idempotent_witness:
  "np_max_abs [1 / 4, - 1 / 2] = Inr (1 / 2) \<and> (0::real) < 1 / 2 \<and>
   (\<exists>once twice. final_normalize [1 / 4, - 1 / 2] = Inr once \<and>
      final_normalize once = Inr twice \<and> np_max_abs twice = np_max_abs once)"
proof -
  have h: "np_max_abs [1 / 4, - 1 / 2] = Inr (1 / 2)"
    by (simp add: np_max_abs_def)
  from final_normalize_idempotent [OF h] show ?thesis
    using h by auto
qed

section \<open>Event protocol facts\<close>

lemma transcription_log_record: "transcription_record (transcription_log now text confidence)"
  by (simp add: transcription_log_def transcription_record_def is_string_def is_float_def)

lemma loopback_transcription_record:
  assumes "ev \<in> set (loopback_transcription now result)"
    and "is_float (Some (dict_get result ''language_probability'' (JFloat 0.9)))"
  shows "transcription_record ev"
  using assms
  by (auto simp: loopback_transcription_def transcription_record_def is_string_def Let_def
      split: json.splits if_splits)

lemma safe_transcription_not_record:
  "ev \<in> set (safe_transcription now text) \<Longrightarrow> \<not> transcription_record ev"
  by (auto simp: safe_transcription_def transcription_record_def is_string_def split: if_splits)

text \<open>
  C9 fails on the third worker: the record that
  \<^verbatim>\<open>loopback_transcribe_deepgram_safe.main\<close> prints for the text \<^verbatim>\<open>hello\<close> has the keys
  \<^verbatim>\<open>type\<close>, \<^verbatim>\<open>text\<close> and \<^verbatim>\<open>timestamp\<close> only, so it carries neither an
  \<^verbatim>\<open>id\<close> nor a \<^verbatim>\<open>confidence\<close>, while the records of the other two workers have the
  shape of the protocol (\<open>transcription_log_record\<close>, \<open>loopback_transcription_record\<close>).
\<close>

theorem safe_transcription_lacks_id:
  "safe_transcription 1 ''hello'' =
     [JObject [(''type'', JString ''transcription''), (''text'', JString ''hello''),
               (''timestamp'', JFloat 1)]] \<and>
   \<not> transcription_record (hd (safe_transcription 1 ''hello''))"
  by (simp add: safe_transcription_def transcription_record_def is_string_def)

section \<open>Batch transcription facts\<close>







section \<open>Keepalive facts\<close>

lemma keepalives_append: "keepalives (xs @ ys) = keepalives xs + keepalives ys"
  by (induction xs) simp_all

lemma at_most_one_late_keepalive:
  "audio_streaming_started s \<Longrightarrow>
   keepalives (wire (run schedule s)) \<le> keepalives (wire s) + (if kpc s = K_Send then 1 else 0)"
proof (induction schedule arbitrary: s)
  case Nil
  then show ?case by (simp add: run_def)
next
  case (Cons t ts)
  have "audio_streaming_started (step s t)"
    using Cons.prems
    by (cases t; cases "kpc s"; cases "apc s")
       (simp_all add: step_def keepalive_step_def audio_step_def split: list.splits)
  from Cons.IH [OF this]
  have "keepalives (wire (run ts (step s t))) \<le>
          keepalives (wire (step s t)) + (if kpc (step s t) = K_Send then 1 else 0)" .
  moreover have "keepalives (wire (step s t)) + (if kpc (step s t) = K_Send then 1 else 0) \<le>
          keepalives (wire s) + (if kpc s = K_Send then 1 else 0)"
    using Cons.prems
    by (cases t; cases "kpc s"; cases "apc s")
       (simp_all add: step_def keepalive_step_def audio_step_def keepalives_append
          split: list.splits)
  ultimately show ?case by (simp add: run_def)
qed

text \<open>
  C1 fails on the code: \<^verbatim>\<open>keepalive_loop\<close> tests the event before it sends, and
  \<^verbatim>\<open>audio_capture_and_stream\<close> sets the event after its first \<^verbatim>\<open>send_media\<close>.
  In the schedule below the keepalive thread finds the event clear, the audio thread then
  reads a frame of 2730 samples, sends its first chunk and sets the event, and the
  keepalive thread sends its silence afterwards: the connection receives real audio first
  and keepalive silence second, with the event already set.
\<close>

theorem keepalive_after_real_audio:
  "wire (run [Keepalive, Keepalive, Audio, Audio, Audio, Audio] (initial [2730])) = [RealAudio] \<and>
   audio_streaming_started
     (run [Keepalive, Keepalive, Audio, Audio, Audio, Audio] (initial [2730])) \<and>
   wire (run [Keepalive, Keepalive, Audio, Audio, Audio, Audio, Keepalive] (initial [2730])) =
     [RealAudio, KeepaliveSilence]"
  by (simp add: run_def step_def keepalive_step_def audio_step_def initial_def
      min_send_samples_def TARGET_SR_def)

end
